theory Spec2Isabelle
  imports Complex_Main
begin

section \<open>Flyleaf designer: data model\<close>

text \<open>
  The designer page (\<^verbatim>\<open>src/app/designer/page.tsx\<close>) keeps all geometry in JavaScript
  numbers. They are modelled as real numbers: arithmetic is exact and every input is
  finite. Strings are byte strings (\<^typ>\<open>string\<close>).

  The source file holds three versions of the page one after the other. The model
  follows the one with the document builder (lines 752 to 1916). The first version
  (lines 1 to 751) has the same layout engine, constants and artwork solver; the
  last one (lines 1917 to 2319) has a side clearance of 20 mm instead of 10 mm and
  neither artwork solver nor document builder.

  Field names follow the source; where two source types use the same field name the
  later record carries a prefix (\<open>rect_id\<close>, \<open>art_widthMm\<close>), and \<open>id\<close> is written
  \<open>id'\<close>.
\<close>

record BookFormState =
  id' :: real
  label :: string
  heightCm :: real
  spineWidthCm :: real
  color :: string

record BookRect =
  rect_id :: real
  rect_label :: string
  widthMm :: real
  heightMm :: real
  xMm :: real
  yMm :: real
  rect_color :: string

record StackMetrics =
  totalWidthMm :: real
  maxHeightMm :: real
  minHeightMm :: real
  requiredWidthMm :: real
  requiredHeightMm :: real
  collectionWidthCm :: real
  fitsOnTabloid :: bool

record StackLayout =
  metrics :: StackMetrics
  rects :: "BookRect list"

definition CM_TO_MM :: real where "CM_TO_MM = 10"
definition GAP_MM :: real where "GAP_MM = 2"
definition CLEARANCE_SIDE_MM :: real where "CLEARANCE_SIDE_MM = 10"
definition CLEARANCE_TOP_MM :: real where "CLEARANCE_TOP_MM = 2"
definition CLEARANCE_BOTTOM_MM :: real where "CLEARANCE_BOTTOM_MM = 2"
definition TABLOID_WIDTH_MM :: real where "TABLOID_WIDTH_MM = 17 * 25.4"
definition TABLOID_HEIGHT_MM :: real where "TABLOID_HEIGHT_MM = 11 * 25.4"

lemmas layout_constants =
  CM_TO_MM_def GAP_MM_def CLEARANCE_SIDE_MM_def CLEARANCE_TOP_MM_def
  CLEARANCE_BOTTOM_MM_def TABLOID_WIDTH_MM_def TABLOID_HEIGHT_MM_def

definition DEFAULT_BOOKS :: "BookFormState list" where
  "DEFAULT_BOOKS =
     [\<lparr>id' = 1, label = ''Book 1'', heightCm = 23.5, spineWidthCm = 4.25, color = ''#2563eb''\<rparr>,
      \<lparr>id' = 2, label = ''Book 2'', heightCm = 23.5, spineWidthCm = 4, color = ''#10b981''\<rparr>,
      \<lparr>id' = 3, label = ''Book 3'', heightCm = 23.5, spineWidthCm = 4.75, color = ''#f97316''\<rparr>,
      \<lparr>id' = 4, label = ''Book 4'', heightCm = 23.5, spineWidthCm = 2.25, color = ''#6366f1''\<rparr>]"

section \<open>Stack layout engine\<close>

definition cmToMm :: "real \<Rightarrow> real" where
  "cmToMm valueCm = valueCm * CM_TO_MM"

text \<open>\<^verbatim>\<open>Math.max(...xs)\<close> and \<^verbatim>\<open>Math.min(...xs)\<close> behind the source's guard
  \<^verbatim>\<open>xs.length ? ... : 0\<close>.\<close>

definition guardedMax :: "real list \<Rightarrow> real" where
  "guardedMax xs = (case xs of [] \<Rightarrow> 0 | y # ys \<Rightarrow> fold max ys y)"

definition guardedMin :: "real list \<Rightarrow> real" where
  "guardedMin xs = (case xs of [] \<Rightarrow> 0 | y # ys \<Rightarrow> fold min ys y)"

text \<open>The callback of \<^verbatim>\<open>widthsMm.reduce\<close>: no gap before the first width.\<close>

definition addWidth :: "real \<Rightarrow> nat \<times> real \<Rightarrow> real" where
  "addWidth acc iw =
     (let gap = (if fst iw = 0 then 0 else GAP_MM) in acc + snd iw + gap)"

text \<open>The body of \<^verbatim>\<open>books.forEach\<close>: the state is the rectangle array and the cursor.\<close>

definition placeBook ::
  "real \<Rightarrow> BookRect list \<times> real \<Rightarrow> nat \<times> BookFormState \<Rightarrow> BookRect list \<times> real" where
  "placeBook maxH st ib =
     (let book = snd ib;
          width = cmToMm (spineWidthCm book);
          height = cmToMm (heightCm book);
          cursor = (if fst ib > 0 then snd st + GAP_MM else snd st);
          x = cursor;
          y = CLEARANCE_TOP_MM + (maxH - height)
      in (fst st @ [\<lparr>rect_id = id' book, rect_label = label book, widthMm = width,
                      heightMm = height, xMm = x, yMm = y, rect_color = color book\<rparr>],
          cursor + width))"

definition computeStackLayout :: "BookFormState list \<Rightarrow> StackLayout" where
  "computeStackLayout books =
     (let heights = map (\<lambda>book. cmToMm (heightCm book)) books;
          widths = map (\<lambda>book. cmToMm (spineWidthCm book)) books;
          maxH = guardedMax heights;
          minH = guardedMin heights;
          total = foldl addWidth 0 (enumerate 0 widths);
          placed = fst (foldl (placeBook maxH) ([], CLEARANCE_SIDE_MM) (enumerate 0 books));
          requiredW = total + CLEARANCE_SIDE_MM * 2;
          requiredH = maxH + CLEARANCE_TOP_MM + CLEARANCE_BOTTOM_MM;
          fits = (requiredW \<le> TABLOID_WIDTH_MM \<and> requiredH \<le> TABLOID_HEIGHT_MM)
      in \<lparr>metrics = \<lparr>totalWidthMm = total, maxHeightMm = maxH, minHeightMm = minH,
                       requiredWidthMm = requiredW, requiredHeightMm = requiredH,
                       collectionWidthCm = total / CM_TO_MM, fitsOnTabloid = fits\<rparr>,
          rects = placed\<rparr>)"

subsection \<open>Properties of the stack layout\<close>



lemma guardedMin_Min:
  assumes "xs \<noteq> []"
  shows "guardedMin xs = Min (set xs)"
proof (cases xs)
  case Nil
  with assms show ?thesis by simp
next
  case (Cons y ys)
  then show ?thesis
    using Min.set_eq_fold [of y ys] by (simp add: guardedMin_def)
qed









text \<open>
  Claim C2 as stated (every metric of the empty stack is zero) fails: the clearances
  are added to the required width and height whatever the book count.
\<close>

theorem computeStackLayout_empty_counterexample:
  "requiredWidthMm (metrics (computeStackLayout [])) = 20
   \<and> requiredHeightMm (metrics (computeStackLayout [])) = 4
   \<and> requiredWidthMm (metrics (computeStackLayout [])) \<noteq> 0"
  by (simp add: computeStackLayout_def Let_def layout_constants guardedMax_def)

text \<open>
  Claim C2, amended. For the empty book sequence \<open>totalWidthMm\<close>, \<open>maxHeightMm\<close>,
  \<open>minHeightMm\<close> and \<open>collectionWidthCm\<close> are zero, \<open>requiredWidthMm\<close> is 20 (twice
  the side clearance), \<open>requiredHeightMm\<close> is 4 (top plus bottom clearance), the stack
  fits the sheet, and there is no rectangle.
\<close>

theorem computeStackLayout_empty:
  "computeStackLayout [] =
     \<lparr>metrics = \<lparr>totalWidthMm = 0, maxHeightMm = 0, minHeightMm = 0,
                  requiredWidthMm = 20, requiredHeightMm = 4,
                  collectionWidthCm = 0, fitsOnTabloid = True\<rparr>,
      rects = []\<rparr>"
  by (simp add: computeStackLayout_def Let_def layout_constants guardedMax_def guardedMin_def)

text \<open>
  Claim C4 as stated (total width 161 mm, required width 201 mm) fails: the four spine
  widths add up to 15.25 cm, that is 152.5 mm and not 155 mm, and the side clearance
  of this source is 10 mm.
\<close>

theorem default_books_counterexample:
  "totalWidthMm (metrics (computeStackLayout DEFAULT_BOOKS)) = 158.5
   \<and> totalWidthMm (metrics (computeStackLayout DEFAULT_BOOKS)) \<noteq> 161
   \<and> requiredWidthMm (metrics (computeStackLayout DEFAULT_BOOKS)) \<noteq> 201"
  by (simp add: computeStackLayout_def Let_def layout_constants guardedMax_def
      DEFAULT_BOOKS_def cmToMm_def addWidth_def enumerate_eq_zip upt_rec)

text \<open>
  Claim C4, amended. For the four default books (height 23.5 cm, spine widths 4.25, 4,
  4.75 and 2.25 cm) \<open>totalWidthMm\<close> is 158.5, \<open>requiredWidthMm\<close> is 178.5 (a side
  clearance of 10 mm on each side), \<open>requiredHeightMm\<close> is 239, and the stack fits
  the 431.8 mm by 279.4 mm sheet.
\<close>

theorem default_books_layout:
  "totalWidthMm (metrics (computeStackLayout DEFAULT_BOOKS)) = 158.5
   \<and> requiredWidthMm (metrics (computeStackLayout DEFAULT_BOOKS)) = 158.5 + 2 * CLEARANCE_SIDE_MM
   \<and> requiredWidthMm (metrics (computeStackLayout DEFAULT_BOOKS)) = 178.5
   \<and> requiredHeightMm (metrics (computeStackLayout DEFAULT_BOOKS)) = 239
   \<and> fitsOnTabloid (metrics (computeStackLayout DEFAULT_BOOKS))"
  by (simp add: computeStackLayout_def Let_def layout_constants guardedMax_def
      DEFAULT_BOOKS_def cmToMm_def addWidth_def)

section \<open>Artwork bounds solver\<close>








definition clamp :: "real \<Rightarrow> real \<Rightarrow> real \<Rightarrow> real" where
  "clamp v lo hi = min (max v lo) hi"



subsection \<open>Properties of the artwork bounds\<close>











section \<open>Book list state of the designer page\<close>

text \<open>
  The page keeps the book list and the next free id in two state cells; every handler
  is the state updater it passes to \<^verbatim>\<open>setBooks\<close> and \<^verbatim>\<open>setNextId\<close>, applied to the
  current state: events are handled one after the other, each on the state the
  previous one left. The two conversions of the JavaScript runtime that the handlers call,
  \<^verbatim>\<open>Number(value)\<close> on a form string and the number formatting of a template literal,
  are parameters (\<open>toNumber\<close>, \<open>numberText\<close>).
\<close>

record DesignerState =
  books :: "BookFormState list"
  nextId :: real











subsection \<open>Properties\<close>













section \<open>Text wrapping for the large spine text\<close>










subsection \<open>Properties\<close>







































section \<open>Document builder\<close>

text \<open>
  The builder appends byte chunks to an array, keeps the running byte offset, and
  records the offset at which every object begins in a sparse array. Bytes are
  \<^typ>\<open>char\<close>s; every string the builder writes is ASCII, so the text encoder maps
  it to as many bytes as it has characters. The writer is passed explicitly; the blob
  is the concatenation of the chunks. Object numbers, pixel sizes and lengths are
  natural numbers.
\<close>

definition digitChar :: "nat \<Rightarrow> char" where
  "digitChar d = ''0123456789'' ! d"

text \<open>Decimal text of a natural number, as a template literal and \<^verbatim>\<open>toString\<close> give it.\<close>

fun natToString :: "nat \<Rightarrow> string" where
  "natToString n =
     (if n < 10 then [digitChar n] else natToString (n div 10) @ [digitChar (n mod 10)])"

declare natToString.simps [simp del]

definition padStart :: "nat \<Rightarrow> char \<Rightarrow> string \<Rightarrow> string" where
  "padStart targetLength c s = replicate (targetLength - length s) c @ s"

definition padPdfOffset :: "nat \<Rightarrow> string" where
  "padPdfOffset v = padStart 10 (CHR ''0'') (natToString v)"

definition mmToPoints :: "real \<Rightarrow> real" where
  "mmToPoints valueMm = (valueMm / 25.4) * 72"

text \<open>\<^verbatim>\<open>x.toFixed(2)\<close> for a number below \<open>10\<^sup>2\<^sup>1\<close>: the nearest multiple of 1/100, the
  larger one on a tie, with the sign in front.\<close>

definition toFixed2 :: "real \<Rightarrow> string" where
  "toFixed2 x =
     (let n = nat \<lfloor>\<bar>x\<bar> * 100 + 1 / 2\<rfloor>;
          digits = natToString (n div 100) @ ''.'' @ [digitChar (n mod 100 div 10), digitChar (n mod 10)]
      in if x < 0 then ''-'' @ digits else digits)"

record PdfPageImage =
  jpegBytes :: string
  widthPx :: nat
  heightPx :: nat

record PdfWriter =
  chunks :: "string list"
  offsets :: "nat \<rightharpoonup> nat"
  currentOffset :: nat

definition write' :: "string \<Rightarrow> PdfWriter \<Rightarrow> PdfWriter" where
  "write' chunk w = w\<lparr>chunks := chunks w @ [chunk], currentOffset := currentOffset w + length chunk\<rparr>"

definition objectHeader :: "nat \<Rightarrow> string" where
  "objectHeader objectNumber = natToString objectNumber @ '' 0 obj\<newline>''"

definition beginObject :: "nat \<Rightarrow> PdfWriter \<Rightarrow> PdfWriter" where
  "beginObject objectNumber w =
     write' (objectHeader objectNumber) (w\<lparr>offsets := (offsets w)(objectNumber \<mapsto> currentOffset w)\<rparr>)"

text \<open>\<^verbatim>\<open>offsets[index] ?? 0\<close>.\<close>

definition offsetOr0 :: "PdfWriter \<Rightarrow> nat \<Rightarrow> nat" where
  "offsetOr0 w index = (case offsets w index of None \<Rightarrow> 0 | Some v \<Rightarrow> v)"

fun joinWith :: "string \<Rightarrow> string list \<Rightarrow> string" where
  "joinWith sep [] = []"
| "joinWith sep [x] = x"
| "joinWith sep (x # y # ys) = x @ sep @ joinWith sep (y # ys)"

definition basePageObject :: nat where "basePageObject = 3"

text \<open>The callback of \<^verbatim>\<open>pages.forEach\<close>.\<close>

definition writePage ::
  "string \<Rightarrow> real \<Rightarrow> real \<Rightarrow> PdfWriter \<Rightarrow> nat \<times> PdfPageImage \<Rightarrow> PdfWriter" where
  "writePage mediaBox pageWidthMm pageHeightMm w ip =
     (let page = snd ip;
          pageObjectNumber = basePageObject + fst ip * 3;
          imageObjectNumber = pageObjectNumber + 1;
          contentObjectNumber = pageObjectNumber + 2;
          w1 = beginObject pageObjectNumber w;
          w2 = write' (''<< /Type /Page /Parent 2 0 R /MediaBox '' @ mediaBox
                      @ '' /Resources << /XObject << /Im0 '' @ natToString imageObjectNumber
                      @ '' 0 R >> /ProcSet [/PDF /ImageC] >> /Contents ''
                      @ natToString contentObjectNumber @ '' 0 R >>\<newline>endobj\<newline>'') w1;
          w3 = beginObject imageObjectNumber w2;
          w4 = write' (''<< /Type /XObject /Subtype /Image /Width '' @ natToString (widthPx page)
                      @ '' /Height '' @ natToString (heightPx page)
                      @ '' /ColorSpace /DeviceRGB /BitsPerComponent 8 /Filter /DCTDecode /Length ''
                      @ natToString (length (jpegBytes page)) @ '' >>\<newline>stream\<newline>'') w3;
          w5 = write' (jpegBytes page) w4;
          w6 = write' ''\<newline>endstream\<newline>endobj\<newline>'' w5;
          pageWidthPoints = toFixed2 (mmToPoints pageWidthMm);
          pageHeightPoints = toFixed2 (mmToPoints pageHeightMm);
          contentStream = ''q\<newline>'' @ pageWidthPoints @ '' 0 0 '' @ pageHeightPoints
                          @ '' 0 0 cm\<newline>/Im0 Do\<newline>Q\<newline>'';
          w7 = beginObject contentObjectNumber w6
      in write' (''<< /Length '' @ natToString (length contentStream) @ '' >>\<newline>stream\<newline>''
                @ contentStream @ ''endstream\<newline>endobj\<newline>'') w7)"

text \<open>The writer after the header, the catalog, the page tree and the objects of every
  page: the state in which the source reads \<^verbatim>\<open>startXref\<close>.\<close>

definition writeObjects :: "PdfPageImage list \<Rightarrow> real \<Rightarrow> real \<Rightarrow> PdfWriter" where
  "writeObjects pages pageWidthMm pageHeightMm =
     (let w0 = \<lparr>chunks = [], offsets = [0 \<mapsto> 0], currentOffset = 0\<rparr>;
          w1 = write' ''%PDF-1.4\<newline>'' w0;
          w2 = beginObject 1 w1;
          w3 = write' ''<< /Type /Catalog /Pages 2 0 R >>\<newline>endobj\<newline>'' w2;
          mediaBox = ''[0 0 '' @ toFixed2 (mmToPoints pageWidthMm) @ '' ''
                     @ toFixed2 (mmToPoints pageHeightMm) @ '']'';
          pageCount = length pages;
          w4 = beginObject 2 w3;
          kids = joinWith '' ''
                   (map (\<lambda>index. natToString (basePageObject + index * 3) @ '' 0 R'') [0..<pageCount]);
          w5 = write' (''<< /Type /Pages /Kids ['' @ kids @ ''] /Count '' @ natToString pageCount
                      @ '' >>\<newline>endobj\<newline>'') w4
      in foldl (writePage mediaBox pageWidthMm pageHeightMm) w5 (enumerate 0 pages))"

text \<open>The cross-reference table and the trailer.\<close>

definition writeXref :: "nat \<Rightarrow> PdfWriter \<Rightarrow> PdfWriter" where
  "writeXref totalObjects w =
     (let startXref = currentOffset w;
          x1 = write' (''xref\<newline>0 '' @ natToString (totalObjects + 1) @ ''\<newline>'') w;
          x2 = write' ''0000000000 65535 f \<newline>'' x1;
          x3 = foldl (\<lambda>x index. write' (padPdfOffset (offsetOr0 x index) @ '' 00000 n \<newline>'') x)
                 x2 [1..<totalObjects + 1]
      in write' (''trailer\<newline><< /Size '' @ natToString (totalObjects + 1)
                @ '' /Root 1 0 R >>\<newline>startxref\<newline>'' @ natToString startXref
                @ ''\<newline>%%EOF'') x3)"

definition buildMultiPagePdf :: "PdfPageImage list \<Rightarrow> real \<Rightarrow> real \<Rightarrow> string" where
  "buildMultiPagePdf pages pageWidthMm pageHeightMm =
     (let body = writeObjects pages pageWidthMm pageHeightMm;
          totalObjects = 2 + length pages * 3
      in concat (chunks (writeXref totalObjects body)))"

text \<open>The number that a string of decimal digits denotes, leading zeros allowed: the
  reading a PDF consumer gives to an offset field.\<close>

definition decimalValue :: "string \<Rightarrow> nat" where
  "decimalValue s = foldl (\<lambda>acc c. acc * 10 + (of_char c - 48)) 0 s"

text \<open>The writer invariant: the running offset is the number of bytes written, and at
  every recorded offset of an object the object's header text stands.\<close>

definition headersAt :: "PdfWriter \<Rightarrow> bool" where
  "headersAt w =
     (currentOffset w = length (concat (chunks w))
      \<and> (\<forall>n off. 0 < n \<longrightarrow> offsets w n = Some off \<longrightarrow>
            off + length (objectHeader n) \<le> length (concat (chunks w))
            \<and> take (length (objectHeader n)) (drop off (concat (chunks w))) = objectHeader n))"

subsection \<open>Properties\<close>

lemma write_fields [simp]:
  "chunks (write' v w) = chunks w @ [v]"
  "offsets (write' v w) = offsets w"
  "currentOffset (write' v w) = currentOffset w + length v"
  by (simp_all add: write'_def)

lemma beginObject_fields [simp]:
  "chunks (beginObject n w) = chunks w @ [objectHeader n]"
  "offsets (beginObject n w) = (offsets w)(n \<mapsto> currentOffset w)"
  "currentOffset (beginObject n w) = currentOffset w + length (objectHeader n)"
  by (simp_all add: beginObject_def)

lemma take_drop_append_left:
  "off + k \<le> length d \<Longrightarrow> take k (drop off (d @ e)) = take k (drop off d)"
  by simp

lemma headersAt_write:
  assumes "headersAt w"
  shows "headersAt (write' v w)"
  unfolding headersAt_def
proof (intro conjI allI impI)
  show "currentOffset (write' v w) = length (concat (chunks (write' v w)))"
    using assms by (simp add: headersAt_def)
next
  fix n off
  assume n: "0 < n" and o: "offsets (write' v w) n = Some off"
  from assms n o have b: "off + length (objectHeader n) \<le> length (concat (chunks w))"
    and t: "take (length (objectHeader n)) (drop off (concat (chunks w))) = objectHeader n"
    by (simp_all add: headersAt_def)
  show "off + length (objectHeader n) \<le> length (concat (chunks (write' v w)))"
    using b by simp
  show "take (length (objectHeader n)) (drop off (concat (chunks (write' v w)))) = objectHeader n"
    using take_drop_append_left [OF b, of v] t by simp
qed

lemma headersAt_beginObject:
  assumes "headersAt w" and "0 < k"
  shows "headersAt (beginObject k w)"
  unfolding headersAt_def
proof (intro conjI allI impI)
  show "currentOffset (beginObject k w) = length (concat (chunks (beginObject k w)))"
    using assms by (simp add: headersAt_def)
next
  fix n off
  assume n: "0 < n" and o: "offsets (beginObject k w) n = Some off"
  have c: "currentOffset w = length (concat (chunks w))"
    using assms by (simp add: headersAt_def)
  have "off + length (objectHeader n) \<le> length (concat (chunks (beginObject k w)))
        \<and> take (length (objectHeader n)) (drop off (concat (chunks (beginObject k w))))
            = objectHeader n"
  proof (cases "n = k")
    case True
    with o c have "off = length (concat (chunks w))" by simp
    with True show ?thesis by simp
  next
    case False
    with o have o': "offsets w n = Some off" by simp
    from assms n o' have b: "off + length (objectHeader n) \<le> length (concat (chunks w))"
      and t: "take (length (objectHeader n)) (drop off (concat (chunks w))) = objectHeader n"
      by (simp_all add: headersAt_def)
    show ?thesis
      using take_drop_append_left [OF b, of "objectHeader k"] t b by simp
  qed
  then show "off + length (objectHeader n) \<le> length (concat (chunks (beginObject k w)))"
    and "take (length (objectHeader n)) (drop off (concat (chunks (beginObject k w))))
            = objectHeader n"
    by simp_all
qed

lemma writePage_headersAt:
  "headersAt w \<Longrightarrow> headersAt (writePage mb pw ph w ip)"
  unfolding writePage_def Let_def
  by (intro headersAt_write headersAt_beginObject) (simp_all add: basePageObject_def)

lemma writePage_dom:
  "dom (offsets (writePage mb pw ph w ip))
   = dom (offsets w) \<union> {3 + fst ip * 3, 3 + fst ip * 3 + 1, 3 + fst ip * 3 + 2}"
  unfolding writePage_def Let_def
  by (auto simp: basePageObject_def)

lemma writePages_headersAt:
  "headersAt w \<Longrightarrow> headersAt (foldl (writePage mb pw ph) w ips)"
  by (induction ips arbitrary: w) (simp_all add: writePage_headersAt)

lemma writePages_dom:
  "dom (offsets (foldl (writePage mb pw ph) w (enumerate 0 pages)))
   = dom (offsets w) \<union> {3..<3 + length pages * 3}"
proof (induction pages rule: rev_induct)
  case Nil
  then show ?case by simp
next
  case (snoc p ps)
  have step: "foldl (writePage mb pw ph) w (enumerate 0 (ps @ [p]))
      = writePage mb pw ph (foldl (writePage mb pw ph) w (enumerate 0 ps)) (length ps, p)"
    by (simp add: enumerate_append_eq)
  show ?case
    unfolding step writePage_dom snoc.IH by auto
qed

lemma writeObjects_headersAt: "headersAt (writeObjects pages pw ph)"
proof -
  have "headersAt \<lparr>chunks = [], offsets = [0 \<mapsto> 0], currentOffset = 0\<rparr>"
    by (simp add: headersAt_def)
  then show ?thesis
    unfolding writeObjects_def Let_def
    by (intro writePages_headersAt headersAt_write headersAt_beginObject) simp_all
qed

lemma writeObjects_dom:
  "dom (offsets (writeObjects pages pw ph)) = {0..2 + length pages * 3}"
  unfolding writeObjects_def Let_def
  by (auto simp: writePages_dom)

lemma offsetOr0_write [simp]: "offsetOr0 (write' a w) = offsetOr0 w"
  by (rule ext) (simp add: offsetOr0_def)

lemma write_overwritten:
  "(write' a w)\<lparr>chunks := cs, currentOffset := k\<rparr> = w\<lparr>chunks := cs, currentOffset := k\<rparr>"
  by (simp add: write'_def)

lemma xref_entries:
  "foldl (\<lambda>x index. write' (f (offsetOr0 x index)) x) w is
   = w\<lparr>chunks := chunks w @ map (\<lambda>index. f (offsetOr0 w index)) is,
       currentOffset := currentOffset w + length (concat (map (\<lambda>index. f (offsetOr0 w index)) is))\<rparr>"
proof (induction "is" arbitrary: w)
  case Nil
  then show ?case by simp
next
  case (Cons i "is")
  have "foldl (\<lambda>x index. write' (f (offsetOr0 x index)) x) w (i # is)
        = foldl (\<lambda>x index. write' (f (offsetOr0 x index)) x) (write' (f (offsetOr0 w i)) w) is"
    by simp
  also note Cons.IH [of "write' (f (offsetOr0 w i)) w"]
  finally show ?case
    by (simp add: write_overwritten)
qed

lemma writeXref_chunks:
  "concat (chunks (writeXref totalObjects w))
   = concat (chunks w)
     @ ''xref\<newline>0 '' @ natToString (totalObjects + 1) @ ''\<newline>''
     @ ''0000000000 65535 f \<newline>''
     @ concat (map (\<lambda>index. padPdfOffset (offsetOr0 w index) @ '' 00000 n \<newline>'') [1..<totalObjects + 1])
     @ ''trailer\<newline><< /Size '' @ natToString (totalObjects + 1)
     @ '' /Root 1 0 R >>\<newline>startxref\<newline>'' @ natToString (currentOffset w)
     @ ''\<newline>%%EOF''"
proof -
  show ?thesis
    unfolding writeXref_def Let_def
    by (simp add: xref_entries [where f = "\<lambda>v. padPdfOffset v @ '' 00000 n \<newline>''"])
qed

lemma digitChar_value: "d < 10 \<Longrightarrow> of_char (digitChar d) = 48 + d"
proof -
  assume "d < 10"
  then have "d \<in> {0, 1, 2, 3, 4, 5, 6, 7, 8, 9}" by auto
  then show ?thesis by (auto simp: digitChar_def)
qed

lemma decimalValue_natToString: "decimalValue (natToString n) = n"
proof (induction n rule: natToString.induct)
  case (1 n)
  show ?case
  proof (cases "n < 10")
    case True
    then show ?thesis
      by (simp add: natToString.simps [of n] decimalValue_def digitChar_value)
  next
    case False
    have "decimalValue (natToString n)
          = decimalValue (natToString (n div 10)) * 10 + (of_char (digitChar (n mod 10)) - 48)"
      using False by (simp add: natToString.simps [of n] decimalValue_def)
    with "1.IH" [OF False] show ?thesis
      by (simp add: digitChar_value)
  qed
qed

lemma decimalValue_zeros: "decimalValue (replicate k (CHR ''0'') @ s) = decimalValue s"
  by (induction k) (simp_all add: decimalValue_def)

lemma decimalValue_padPdfOffset: "decimalValue (padPdfOffset v) = v"
  by (simp add: padPdfOffset_def padStart_def decimalValue_zeros decimalValue_natToString)

lemma natToString_length: "n < 10 ^ k \<Longrightarrow> 0 < k \<Longrightarrow> length (natToString n) \<le> k"
proof (induction n arbitrary: k rule: natToString.induct)
  case (1 n)
  show ?case
  proof (cases "n < 10")
    case True
    with "1.prems" show ?thesis by (simp add: natToString.simps [of n])
  next
    case False
    from "1.prems" obtain j where k: "k = Suc j" by (cases k) auto
    with "1.prems" False have j: "0 < j" by (cases j) auto
    from "1.prems" k have "n div 10 < 10 ^ j"
      by (simp add: less_mult_imp_div_less mult.commute)
    from "1.IH" [OF False this j] False k show ?thesis
      by (simp add: natToString.simps [of n])
  qed
qed

lemma padPdfOffset_length: "v < 10 ^ 10 \<Longrightarrow> length (padPdfOffset v) = 10"
  using natToString_length [of v 10] by (simp add: padPdfOffset_def padStart_def)

text \<open>
  Claim C1. For every sequence of pages, the document is the objects followed by the
  cross-reference table and the trailer. The table starts with the sentinel free entry
  \<open>0000000000 65535 f\<close> and then holds, for every object number \<open>N\<close> from 1 to the
  total object count in ascending order, the recorded offset of object \<open>N\<close> padded
  with zeros by \<^verbatim>\<open>padPdfOffset\<close>. That offset is the byte position, counted from byte 0
  of the document, at which the header text \<open>N 0 obj\<close> of the object begins; the padded
  field reads back as the offset and is exactly 10 digits wide for every offset below
  \<open>10\<^sup>1\<^sup>0\<close>. The trailer's \<open>startxref\<close> value is the byte position at which the
  cross-reference table begins.
\<close>

theorem buildMultiPagePdf_xref:
  "(let doc = buildMultiPagePdf pages pageWidthMm pageHeightMm;
        body = writeObjects pages pageWidthMm pageHeightMm;
        totalObjects = 2 + length pages * 3;
        startXref = length (concat (chunks body))
    in doc = concat (chunks body)
             @ ''xref\<newline>0 '' @ natToString (totalObjects + 1) @ ''\<newline>''
             @ ''0000000000 65535 f \<newline>''
             @ concat (map (\<lambda>N. padPdfOffset (offsetOr0 body N) @ '' 00000 n \<newline>'')
                        [1..<totalObjects + 1])
             @ ''trailer\<newline><< /Size '' @ natToString (totalObjects + 1)
             @ '' /Root 1 0 R >>\<newline>startxref\<newline>'' @ natToString startXref
             @ ''\<newline>%%EOF''
       \<and> take 5 (drop startXref doc) = ''xref\<newline>''
       \<and> (\<forall>N\<in>{1..totalObjects}.
             offsets body N \<noteq> None
           \<and> offsetOr0 body N + length (objectHeader N) \<le> startXref
           \<and> take (length (objectHeader N)) (drop (offsetOr0 body N) doc) = objectHeader N
           \<and> decimalValue (padPdfOffset (offsetOr0 body N)) = offsetOr0 body N
           \<and> (offsetOr0 body N < 10 ^ 10 \<longrightarrow> length (padPdfOffset (offsetOr0 body N)) = 10)))"
proof -
  define body where "body = writeObjects pages pageWidthMm pageHeightMm"
  define doc where "doc = buildMultiPagePdf pages pageWidthMm pageHeightMm"
  define totalObjects where "totalObjects = 2 + length pages * 3"
  define tail where "tail = ''xref\<newline>0 '' @ natToString (totalObjects + 1) @ ''\<newline>''
             @ ''0000000000 65535 f \<newline>''
             @ concat (map (\<lambda>N. padPdfOffset (offsetOr0 body N) @ '' 00000 n \<newline>'')
                        [1..<totalObjects + 1])
             @ ''trailer\<newline><< /Size '' @ natToString (totalObjects + 1)
             @ '' /Root 1 0 R >>\<newline>startxref\<newline>''
             @ natToString (length (concat (chunks body)))
             @ ''\<newline>%%EOF''"
  have inv: "headersAt body"
    unfolding body_def by (rule writeObjects_headersAt)
  then have cur: "currentOffset body = length (concat (chunks body))"
    by (simp add: headersAt_def)
  have doc: "doc = concat (chunks body) @ tail"
    unfolding doc_def buildMultiPagePdf_def Let_def body_def [symmetric] totalObjects_def [symmetric]
      writeXref_chunks cur tail_def by simp
  have xref: "take 5 (drop (length (concat (chunks body))) doc) = ''xref\<newline>''"
    unfolding doc by (simp add: tail_def)
  have objs: "offsets body N \<noteq> None
           \<and> offsetOr0 body N + length (objectHeader N) \<le> length (concat (chunks body))
           \<and> take (length (objectHeader N)) (drop (offsetOr0 body N) doc) = objectHeader N
           \<and> decimalValue (padPdfOffset (offsetOr0 body N)) = offsetOr0 body N
           \<and> (offsetOr0 body N < 10 ^ 10 \<longrightarrow> length (padPdfOffset (offsetOr0 body N)) = 10)"
    if N: "N \<in> {1..totalObjects}" for N
  proof -
    from N have "N \<in> dom (offsets body)"
      unfolding body_def writeObjects_dom totalObjects_def by simp
    then obtain off where off: "offsets body N = Some off" by blast
    then have o: "offsetOr0 body N = off" by (simp add: offsetOr0_def)
    from N have "0 < N" by simp
    with inv off have b: "off + length (objectHeader N) \<le> length (concat (chunks body))"
      and t: "take (length (objectHeader N)) (drop off (concat (chunks body))) = objectHeader N"
      by (simp_all add: headersAt_def)
    have "take (length (objectHeader N)) (drop off doc) = objectHeader N"
      unfolding doc using take_drop_append_left [OF b, of tail] t by simp
    with off o b show ?thesis
      by (simp add: padPdfOffset_length decimalValue_padPdfOffset)
  qed
  show ?thesis
    unfolding Let_def body_def [symmetric] doc_def [symmetric] totalObjects_def [symmetric]
    using doc xref objs unfolding tail_def by blast
qed

text \<open>A one-page document on the tabloid sheet: the image object 4 begins at byte 276
  and the table at byte 534.\<close>

theorem buildMultiPagePdf_xref_witness:
  "offsetOr0 (writeObjects [\<lparr>jpegBytes = ''JPEG'', widthPx = 2159, heightPx = 1397\<rparr>]
       TABLOID_WIDTH_MM TABLOID_HEIGHT_MM) 4 = 276
   \<and> padPdfOffset 276 = ''0000000276''
   \<and> take (length ''4 0 obj\<newline>'') (drop 276 (buildMultiPagePdf [\<lparr>jpegBytes = ''JPEG'', widthPx = 2159, heightPx = 1397\<rparr>]
       TABLOID_WIDTH_MM TABLOID_HEIGHT_MM)) = ''4 0 obj\<newline>''
   \<and> length (concat (chunks (writeObjects [\<lparr>jpegBytes = ''JPEG'', widthPx = 2159, heightPx = 1397\<rparr>]
       TABLOID_WIDTH_MM TABLOID_HEIGHT_MM))) = 534
   \<and> take 5 (drop 534 (buildMultiPagePdf [\<lparr>jpegBytes = ''JPEG'', widthPx = 2159, heightPx = 1397\<rparr>]
       TABLOID_WIDTH_MM TABLOID_HEIGHT_MM)) = ''xref\<newline>''"
proof -
  define pages where "pages = [\<lparr>jpegBytes = ''JPEG'', widthPx = 2159, heightPx = 1397\<rparr>]"
  define body where "body = writeObjects pages TABLOID_WIDTH_MM TABLOID_HEIGHT_MM"
  define doc where "doc = buildMultiPagePdf pages TABLOID_WIDTH_MM TABLOID_HEIGHT_MM"
  have f: "toFixed2 (mmToPoints TABLOID_WIDTH_MM) = ''1224.00''"
    "toFixed2 (mmToPoints TABLOID_HEIGHT_MM) = ''792.00''"
    by (simp_all add: toFixed2_def mmToPoints_def TABLOID_WIDTH_MM_def TABLOID_HEIGHT_MM_def
        Let_def natToString.simps digitChar_def)
  have o: "offsetOr0 body 4 = 276"
    unfolding body_def pages_def
    by (simp add: writeObjects_def writePage_def Let_def f offsetOr0_def basePageObject_def
        objectHeader_def natToString.simps digitChar_def)
  have l: "length (concat (chunks body)) = 534"
    unfolding body_def pages_def
    by (simp add: writeObjects_def writePage_def Let_def f basePageObject_def
        objectHeader_def natToString.simps digitChar_def)
  have h: "objectHeader 4 = ''4 0 obj\<newline>''"
    by (simp add: objectHeader_def natToString.simps digitChar_def)
  have "natToString 276 = ''276''"
    by (simp add: natToString.simps digitChar_def)
  then have p: "padPdfOffset 276 = ''0000000276''"
    by (simp add: padPdfOffset_def padStart_def numeral_eq_Suc)
  have n: "(4::nat) \<in> {1..2 + length pages * 3}"
    by (simp add: pages_def)
  from buildMultiPagePdf_xref [of pages TABLOID_WIDTH_MM TABLOID_HEIGHT_MM]
  have x: "take 5 (drop (length (concat (chunks body))) doc) = ''xref\<newline>''"
    and a: "\<forall>N\<in>{1..2 + length pages * 3}.
              take (length (objectHeader N)) (drop (offsetOr0 body N) doc) = objectHeader N"
    unfolding Let_def body_def [symmetric] doc_def [symmetric] by blast+
  from a n have "take (length (objectHeader 4)) (drop (offsetOr0 body 4) doc) = objectHeader 4"
    by blast
  then have "take (length ''4 0 obj\<newline>'') (drop 276 doc) = ''4 0 obj\<newline>''"
    unfolding o h by simp
  with o l p x show ?thesis
    unfolding body_def doc_def pages_def by simp
qed

end
